theory Spec2Isabelle
  imports Complex_Main
begin

section \<open>Runtime values\<close>

text \<open>
  The library is TypeScript; its validators take \<^verbatim>\<open>unknown\<close> input, so the model works on
  the values the code can inspect at run time. A number is an IEEE double: the code only
  compares numbers and hands them back, and every finite double is a rational, so a finite
  number is a \<^typ>\<open>rat\<close>; the two infinities and NaN are separate constructors. The two
  zeros are one value (no operator the code uses tells them apart).
\<close>

datatype number = Finite rat | PosInfinity | NegInfinity | NaN

text \<open>The operator \<^verbatim>\<open>a < b\<close> on numbers: false whenever an operand is NaN.\<close>

fun numLess :: "number \<Rightarrow> number \<Rightarrow> bool" where
  "numLess NaN _ = False"
| "numLess _ NaN = False"
| "numLess (Finite a) (Finite b) = (a < b)"
| "numLess (Finite _) PosInfinity = True"
| "numLess NegInfinity (Finite _) = True"
| "numLess NegInfinity PosInfinity = True"
| "numLess _ _ = False"

text \<open>
  A value is what JSON can carry, plus \<^verbatim>\<open>undefined\<close>. An object is the list of its own
  enumerable properties in insertion order (the order \<^verbatim>\<open>Object.entries\<close> walks). Strings are
  lists of characters and \<^verbatim>\<open>.length\<close> is the length of that list. Properties inherited from a
  prototype are outside the model.
\<close>

datatype jsval =
    JUndefined
  | JNull
  | JBool bool
  | JNum number
  | JStr string
  | JArr "jsval list"
  | JObj "(string \<times> jsval) list"

text \<open>What is thrown: a \<^verbatim>\<open>ValidationError\<close> (message, errors), any other \<^verbatim>\<open>Error\<close>
  (message), or a value that is not an \<^verbatim>\<open>Error\<close> at all.\<close>

datatype thrown = ValidationError string "string list" | Error string | NonError

fun typeof :: "jsval \<Rightarrow> string" where
  "typeof JUndefined = ''undefined''"
| "typeof JNull = ''object''"
| "typeof (JBool _) = ''boolean''"
| "typeof (JNum _) = ''number''"
| "typeof (JStr _) = ''string''"
| "typeof (JArr _) = ''object''"
| "typeof (JObj _) = ''object''"

fun isArray :: "jsval \<Rightarrow> bool" where
  "isArray (JArr _) = True"
| "isArray _ = False"

text \<open>Decimal rendering of a loop index or a length, as a template literal prints it.\<close>

fun showNat :: "nat \<Rightarrow> string" where
  "showNat n =
     (if n < 10 then [''0123456789'' ! n]
      else showNat (n div 10) @ [''0123456789'' ! (n mod 10)])"

declare showNat.simps [simp del]

text \<open>
  \<^verbatim>\<open>Object.entries(obj)\<close> and \<^verbatim>\<open>key in obj\<close> for a value whose \<^verbatim>\<open>typeof\<close> is
  \<^verbatim>\<open>'object'\<close>: an array is an object whose own keys are its indices (and \<^verbatim>\<open>length\<close>, which
  is not enumerable).
\<close>

fun objectEntries :: "jsval \<Rightarrow> (string \<times> jsval) list" where
  "objectEntries (JObj es) = es"
| "objectEntries (JArr xs) = zip (map showNat [0..<length xs]) xs"
| "objectEntries _ = []"

fun hasProperty :: "string \<Rightarrow> jsval \<Rightarrow> bool" where
  "hasProperty k (JObj es) = (k \<in> fst ` set es)"
| "hasProperty k (JArr xs) = (k \<in> set (map showNat [0..<length xs]) \<or> k = ''length'')"
| "hasProperty k _ = False"

text \<open>\<^verbatim>\<open>obj[key]\<close> for a key that is not \<^verbatim>\<open>length\<close>: \<^verbatim>\<open>undefined\<close> when the key is absent.\<close>

fun getProperty :: "jsval \<Rightarrow> string \<Rightarrow> jsval" where
  "getProperty d k = (case map_of (objectEntries d) k of Some v \<Rightarrow> v | None \<Rightarrow> JUndefined)"

text \<open>\<^verbatim>\<open>delete obj[k]\<close> on a plain object.\<close>

fun deleteProperty :: "string \<Rightarrow> jsval \<Rightarrow> jsval" where
  "deleteProperty k (JObj es) = JObj (filter (\<lambda>(key, value). key \<noteq> k) es)"
| "deleteProperty k d = d"

text \<open>
  What the platform supplies: \<^verbatim>\<open>new RegExp(pattern).test(value)\<close> for a well-formed pattern,
  and the decimal text of a number. Both are parameters of the model.
\<close>

record platform =
  regExpTest :: "string \<Rightarrow> string \<Rightarrow> bool"
  numberToString :: "number \<Rightarrow> string"

fun joinWith :: "string \<Rightarrow> string list \<Rightarrow> string" where
  "joinWith sep [] = []"
| "joinWith sep [x] = x"
| "joinWith sep (x # y # ys) = x @ sep @ joinWith sep (y # ys)"

text \<open>String conversion, as a template literal does it. Joining an array prints
  \<^verbatim>\<open>null\<close> and \<^verbatim>\<open>undefined\<close> elements as the empty string.\<close>

fun toStr :: "platform \<Rightarrow> jsval \<Rightarrow> string" where
  "toStr P JUndefined = ''undefined''"
| "toStr P JNull = ''null''"
| "toStr P (JBool b) = (if b then ''true'' else ''false'')"
| "toStr P (JNum n) = numberToString P n"
| "toStr P (JStr s) = s"
| "toStr P (JArr xs) =
     joinWith '','' (map (\<lambda>x. if x = JNull \<or> x = JUndefined then [] else toStr P x) xs)"
| "toStr P (JObj _) = ''[object Object]''"

definition arrayJoin :: "platform \<Rightarrow> string \<Rightarrow> jsval list \<Rightarrow> string" where
  "arrayJoin P sep xs =
     joinWith sep (map (\<lambda>x. if x = JNull \<or> x = JUndefined then [] else toStr P x) xs)"

text \<open>
  Equality. A value read from the data is never the same heap object as a literal of a
  schema or as another element of the data, so two arrays or two objects are never equal.
  \<^verbatim>\<open>===\<close> makes NaN unequal to itself; \<^verbatim>\<open>includes\<close> and \<^verbatim>\<open>Set\<close> (SameValueZero) do not.
\<close>

fun strictEquals :: "jsval \<Rightarrow> jsval \<Rightarrow> bool" where
  "strictEquals (JArr _) _ = False"
| "strictEquals (JObj _) _ = False"
| "strictEquals (JNum a) (JNum b) = (a \<noteq> NaN \<and> a = b)"
| "strictEquals a b = (a = b)"

fun sameValueZero :: "jsval \<Rightarrow> jsval \<Rightarrow> bool" where
  "sameValueZero (JArr _) _ = False"
| "sameValueZero (JObj _) _ = False"
| "sameValueZero a b = (a = b)"

definition arrayIncludes :: "jsval list \<Rightarrow> jsval \<Rightarrow> bool" where
  "arrayIncludes xs v = list_ex (\<lambda>x. sameValueZero x v) xs"

text \<open>\<^verbatim>\<open>new Set(value).size\<close>.\<close>

fun setSize :: "jsval list \<Rightarrow> nat" where
  "setSize [] = 0"
| "setSize (x # xs) = (if list_ex (sameValueZero x) xs then setSize xs else Suc (setSize xs))"

section \<open>Schemas\<close>

text \<open>
  A schema node carries the keywords of \<^verbatim>\<open>JSONSchema7\<close> that the repository's schemas use
  or the engine reads. \<^verbatim>\<open>type\<close> is absent, one name or a list of names. The lengths and
  item counts are non-negative integers, as JSON Schema requires. \<^verbatim>\<open>properties\<close> and
  \<^verbatim>\<open>items\<close> hold the child schemas; a boolean child schema and the tuple form of
  \<^verbatim>\<open>items\<close> are not represented (the engine reads no keyword from either, so both validate
  as a schema without keywords does).
\<close>

datatype schemaType = TypeUndefined | TypeName string | TypeNames "string list"

record schemaKeywords =
  type :: schemaType
  required :: "string list option"
  additionalProperties :: "bool option"
  minLength :: "nat option"
  maxLength :: "nat option"
  pattern :: "string option"
  format :: "string option"
  minimum :: "number option"
  maximum :: "number option"
  enum :: "jsval list option"
  const :: "jsval option"
  minItems :: "nat option"
  maxItems :: "nat option"
  uniqueItems :: "bool option"

datatype schema =
  Schema (kw: schemaKeywords) (properties: "(string \<times> schema) list option") (items: "schema option")

section \<open>The validation engine (\<^verbatim>\<open>SimpleValidator\<close>)\<close>

record ValidationResult =
  valid :: bool
  errors :: "string list"

text \<open>
  \<^verbatim>\<open>validateField\<close> is a sequence of blocks, each under its own comment in the source
  (type, string, number, enum, const, array). The blocks that do not recurse are separate
  definitions here, named after their comments; \<^verbatim>\<open>validateField\<close> below chains them in
  the source's order. The type block returns its error at once (\<open>Some\<close>); the others
  append to the error list.
\<close>

definition typeValidation :: "jsval \<Rightarrow> schema \<Rightarrow> string \<Rightarrow> string list option" where
  "typeValidation value schema fieldName =
     (let expectedType =
        (case type (kw schema) of
           TypeNames ts \<Rightarrow> find (\<lambda>t. t \<noteq> ''null'') ts
         | TypeName t \<Rightarrow> Some t
         | TypeUndefined \<Rightarrow> None)
      in case expectedType of
           None \<Rightarrow> None
         | Some t \<Rightarrow>
             if t = ''array'' \<and> \<not> isArray value
             then Some [fieldName @ '': Expected array, got '' @ typeof value]
             else if t \<noteq> ''array'' \<and> typeof value \<noteq> t
             then Some [fieldName @ '': Expected '' @ t @ '', got '' @ typeof value]
             else None)"


definition stringValidations :: "platform \<Rightarrow> jsval \<Rightarrow> schema \<Rightarrow> string \<Rightarrow> string list" where
  "stringValidations P value schema fieldName =
     (case value of
        JStr s \<Rightarrow>
          if type (kw schema) = TypeName ''string'' then
            (case minLength (kw schema) of
               Some n \<Rightarrow>
                 if length s < n then [fieldName @ '': Minimum length is '' @ showNat n] else []
             | None \<Rightarrow> [])
            @
            (case maxLength (kw schema) of
               Some n \<Rightarrow>
                 if length s > n then [fieldName @ '': Maximum length is '' @ showNat n] else []
             | None \<Rightarrow> [])
            @
            (case pattern (kw schema) of
               Some p \<Rightarrow>
                 if \<not> regExpTest P p s then [fieldName @ '': Does not match pattern '' @ p] else []
             | None \<Rightarrow> [])
          else []
      | _ \<Rightarrow> [])"

definition numberValidations :: "platform \<Rightarrow> jsval \<Rightarrow> schema \<Rightarrow> string \<Rightarrow> string list" where
  "numberValidations P value schema fieldName =
     (case value of
        JNum n \<Rightarrow>
          if type (kw schema) = TypeName ''number'' then
            (case minimum (kw schema) of
               Some m \<Rightarrow>
                 if numLess n m then [fieldName @ '': Minimum value is '' @ numberToString P m] else []
             | None \<Rightarrow> [])
            @
            (case maximum (kw schema) of
               Some m \<Rightarrow>
                 if numLess m n then [fieldName @ '': Maximum value is '' @ numberToString P m] else []
             | None \<Rightarrow> [])
          else []
      | _ \<Rightarrow> [])"

definition enumValidation :: "platform \<Rightarrow> jsval \<Rightarrow> schema \<Rightarrow> string \<Rightarrow> string list" where
  "enumValidation P value schema fieldName =
     (case enum (kw schema) of
        Some vs \<Rightarrow>
          if \<not> arrayIncludes vs value
          then [fieldName @ '': Must be one of '' @ arrayJoin P '', '' vs]
          else []
      | None \<Rightarrow> [])"

definition constValidation :: "platform \<Rightarrow> jsval \<Rightarrow> schema \<Rightarrow> string \<Rightarrow> string list" where
  "constValidation P value schema fieldName =
     (case const (kw schema) of
        Some c \<Rightarrow>
          if \<not> strictEquals value c then [fieldName @ '': Must be '' @ toStr P c] else []
      | None \<Rightarrow> [])"

definition arrayValidations :: "jsval list \<Rightarrow> schema \<Rightarrow> string \<Rightarrow> string list" where
  "arrayValidations xs schema fieldName =
     (case minItems (kw schema) of
        Some n \<Rightarrow> if length xs < n then [fieldName @ '': Minimum items is '' @ showNat n] else []
      | None \<Rightarrow> [])
     @
     (case maxItems (kw schema) of
        Some n \<Rightarrow> if length xs > n then [fieldName @ '': Maximum items is '' @ showNat n] else []
      | None \<Rightarrow> [])
     @
     (if uniqueItems (kw schema) = Some True \<and> setSize xs \<noteq> length xs
      then [fieldName @ '': Items must be unique'']
      else [])"

text \<open>Both functions recurse on parts of the data, through the loops over entries and
  elements; \<^verbatim>\<open>validateField\<close> calls \<^verbatim>\<open>validateSchema\<close> on the same value.\<close>

lemma size_elem: "x \<in> set xs \<Longrightarrow> size (x::jsval) < Suc (size_list size xs)"
  by (induction xs) auto

lemma size_entry:
  "(k, v) \<in> set es \<Longrightarrow> size (v::jsval) < Suc (size_list (size_prod (\<lambda>_. 0) size) es)"
  by (induction es) auto

lemma size_objectEntries: "(k, v) \<in> set (objectEntries d) \<Longrightarrow> size v < size d"
proof (cases d)
  case (JArr xs)
  assume "(k, v) \<in> set (objectEntries d)"
  with JArr have "v \<in> set xs" by (auto dest: set_zip_rightD)
  with JArr show ?thesis using size_elem [of v xs] by simp
next
  case (JObj es)
  assume "(k, v) \<in> set (objectEntries d)"
  with JObj show ?thesis using size_entry [of k v es] by simp
qed simp_all

function (sequential) validateSchema :: "platform \<Rightarrow> jsval \<Rightarrow> schema \<Rightarrow> ValidationResult"
  and validateField :: "platform \<Rightarrow> jsval \<Rightarrow> schema \<Rightarrow> string \<Rightarrow> ValidationResult"
where
  "validateSchema P d schema =
     (let errs =
        (if type (kw schema) = TypeName ''object'' \<and> typeof d = ''object'' \<and> d \<noteq> JNull
         then
           (case required (kw schema) of
              Some req \<Rightarrow>
                concat (map (\<lambda>field.
                  if \<not> hasProperty field d then [''Missing required field: '' @ field] else []) req)
            | None \<Rightarrow> [])
           @
           (case properties schema of
              Some props \<Rightarrow>
                concat (map (\<lambda>(key, value).
                  case map_of props key of
                    Some fieldSchema \<Rightarrow> errors (validateField P value fieldSchema key)
                  | None \<Rightarrow> []) (objectEntries d))
            | None \<Rightarrow> [])
         else
           (case type (kw schema) of
              TypeUndefined \<Rightarrow> []
            | TypeName t \<Rightarrow>
                if typeof d \<noteq> t then [''Expected type '' @ t @ '', got '' @ typeof d] else []
            | TypeNames ts \<Rightarrow>
                [''Expected type '' @ joinWith '','' ts @ '', got '' @ typeof d]))
      in \<lparr>valid = (errs = []), errors = errs\<rparr>)"
| "validateField P value schema fieldName =
     (if (case type (kw schema) of TypeNames ts \<Rightarrow> ''null'' \<in> set ts | _ \<Rightarrow> False) \<and> value = JNull
      then \<lparr>valid = True, errors = []\<rparr>
      else
        (case typeValidation value schema fieldName of
           Some errs \<Rightarrow> \<lparr>valid = False, errors = errs\<rparr>
         | None \<Rightarrow>
           (let errs =
              stringValidations P value schema fieldName
              @ numberValidations P value schema fieldName
              @ enumValidation P value schema fieldName
              @ constValidation P value schema fieldName
              @
              (case value of
                 JArr xs \<Rightarrow>
                   if type (kw schema) = TypeName ''array'' then
                     arrayValidations xs schema fieldName
                     @
                     (case items schema of
                        Some itemSchema \<Rightarrow>
                          concat (map (\<lambda>(i, x).
                            errors (validateField P x itemSchema
                              (fieldName @ ''['' @ showNat i @ '']'')))
                            (zip [0..<length xs] xs))
                      | None \<Rightarrow> [])
                   else []
               | _ \<Rightarrow> [])
              @
              (if type (kw schema) = TypeName ''object'' \<and> typeof value = ''object'' \<and> value \<noteq> JNull
               then map (\<lambda>error. fieldName @ ''.'' @ error) (errors (validateSchema P value schema))
               else [])
            in \<lparr>valid = (errs = []), errors = errs\<rparr>)))"
  by pat_completeness auto
termination
  apply (relation "measure (\<lambda>x. case x of
      Inl (P, d, s) \<Rightarrow> 2 * size d | Inr (P, v, s, f) \<Rightarrow> 2 * size v + 1)")
  subgoal by simp
  subgoal by (auto dest: size_objectEntries)
  subgoal for P v schema fieldName xs itemSchema e i x
    using size_elem [of x xs] by (auto dest: set_zip_rightD)
  subgoal by simp
  done

declare validateSchema.simps [simp del] validateField.simps [simp del]

definition validate :: "platform \<Rightarrow> jsval \<Rightarrow> schema \<Rightarrow> ValidationResult" where
  "validate P d schema =
     (if type (kw schema) \<noteq> TypeName ''object''
      then validateField P d schema ''value''
      else validateSchema P d schema)"

section \<open>Constants and branded numbers (\<^verbatim>\<open>types.ts\<close>)\<close>

definition PRIORITIES :: "string list" where
  "PRIORITIES = [''low'', ''medium'', ''high'', ''critical'']"

definition FEATURE_STATUSES :: "string list" where
  "FEATURE_STATUSES = [''backlog'', ''planning'', ''in-progress'', ''testing'', ''completed'']"

definition BUG_STATUSES :: "string list" where
  "BUG_STATUSES = [''open'', ''in-progress'', ''resolved'', ''closed'', ''wont-fix'']"

definition TASK_STATUSES :: "string list" where
  "TASK_STATUSES = [''todo'', ''in-progress'', ''blocked'', ''completed'']"

definition SEVERITIES :: "string list" where
  "SEVERITIES = [''low'', ''medium'', ''high'', ''critical'']"

definition createStoryPoints :: "number \<Rightarrow> thrown + number" where
  "createStoryPoints value =
     (if numLess value (Finite 1) \<or> numLess (Finite 21) value
      then Inl (Error ''Story points must be between 1 and 21'')
      else Inr value)"

definition createHours :: "number \<Rightarrow> thrown + number" where
  "createHours value =
     (if numLess value (Finite 0)
      then Inl (Error ''Hours must be non-negative'')
      else Inr value)"

section \<open>Transition tables and checks\<close>

text \<open>
  A table is an object keyed by status; a status is a string at run time. Reading a key
  the table does not have gives \<^verbatim>\<open>undefined\<close>, and calling \<^verbatim>\<open>.includes\<close> on it raises a
  \<^verbatim>\<open>TypeError\<close>: the value \<open>None\<close> here.
\<close>

definition FEATURE_STATUS_TRANSITIONS :: "(string \<times> string list) list" where
  "FEATURE_STATUS_TRANSITIONS =
     [(''backlog'', [''planning'']),
      (''planning'', [''in-progress'', ''backlog'']),
      (''in-progress'', [''testing'', ''planning'']),
      (''testing'', [''completed'', ''in-progress'']),
      (''completed'', [])]"

definition BUG_STATUS_TRANSITIONS :: "(string \<times> string list) list" where
  "BUG_STATUS_TRANSITIONS =
     [(''open'', [''in-progress'', ''wont-fix'']),
      (''in-progress'', [''resolved'', ''open'']),
      (''resolved'', [''closed'', ''open'']),
      (''closed'', [''open'']),
      (''wont-fix'', [''open''])]"

definition TASK_STATUS_TRANSITIONS :: "(string \<times> string list) list" where
  "TASK_STATUS_TRANSITIONS =
     [(''todo'', [''in-progress'']),
      (''in-progress'', [''blocked'', ''completed'', ''todo'']),
      (''blocked'', [''in-progress'', ''todo'']),
      (''completed'', [])]"

definition canTransitionFeatureStatus :: "string \<Rightarrow> string \<Rightarrow> bool option" where
  "canTransitionFeatureStatus from to =
     (case map_of FEATURE_STATUS_TRANSITIONS from of
        Some next \<Rightarrow> Some (to \<in> set next)
      | None \<Rightarrow> None)"

definition canTransitionBugStatus :: "string \<Rightarrow> string \<Rightarrow> bool option" where
  "canTransitionBugStatus from to =
     (case map_of BUG_STATUS_TRANSITIONS from of
        Some next \<Rightarrow> Some (to \<in> set next)
      | None \<Rightarrow> None)"

definition canTransitionTaskStatus :: "string \<Rightarrow> string \<Rightarrow> bool option" where
  "canTransitionTaskStatus from to =
     (case map_of TASK_STATUS_TRANSITIONS from of
        Some next \<Rightarrow> Some (to \<in> set next)
      | None \<Rightarrow> None)"

text \<open>
  \<^verbatim>\<open>canTransitionStatus\<close> takes a \<^verbatim>\<open>ProjectItem\<close> and reads its \<^verbatim>\<open>type\<close> tag and its
  \<^verbatim>\<open>status\<close>: the record holds these two fields. Both are strings, so that an item whose
  tag is none of the three kinds is a value of the model.
\<close>

record ProjectItem =
  itemType :: string
  status :: string

definition isFeature :: "ProjectItem \<Rightarrow> bool" where
  "isFeature item = (itemType item = ''feature'')"

definition isBug :: "ProjectItem \<Rightarrow> bool" where
  "isBug item = (itemType item = ''bug'')"

definition isTask :: "ProjectItem \<Rightarrow> bool" where
  "isTask item = (itemType item = ''task'')"

definition canTransitionStatus :: "ProjectItem \<Rightarrow> string \<Rightarrow> bool option" where
  "canTransitionStatus item newStatus =
     (if isFeature item then canTransitionFeatureStatus (status item) newStatus
      else if isBug item then canTransitionBugStatus (status item) newStatus
      else if isTask item then canTransitionTaskStatus (status item) newStatus
      else Some False)"

section \<open>Schema definitions (\<^verbatim>\<open>schemas.ts\<close>)\<close>

definition noKeywords :: schemaKeywords where
  "noKeywords =
     \<lparr>type = TypeUndefined, required = None, additionalProperties = None,
      minLength = None, maxLength = None, pattern = None, format = None,
      minimum = None, maximum = None, enum = None, const = None,
      minItems = None, maxItems = None, uniqueItems = None\<rparr>"

definition createEnumSchema :: "string list \<Rightarrow> schema" where
  "createEnumSchema values =
     Schema (noKeywords\<lparr>type := TypeName ''string'', enum := Some (map JStr values)\<rparr>) None None"

definition BASE_ITEM_SCHEMA :: schema where
  "BASE_ITEM_SCHEMA =
     Schema
       (noKeywords\<lparr>type := TypeName ''object'',
          required := Some [''id'', ''title'', ''description'', ''status'', ''priority'',
                            ''createdAt'', ''updatedAt''],
          additionalProperties := Some False\<rparr>)
       (Some
         [(''id'', Schema (noKeywords\<lparr>type := TypeName ''string'', minLength := Some 1,
                     pattern := Some ''^[a-zA-Z0-9_-]+$''\<rparr>) None None),
          (''title'', Schema (noKeywords\<lparr>type := TypeName ''string'', minLength := Some 1,
                     maxLength := Some 200\<rparr>) None None),
          (''description'', Schema (noKeywords\<lparr>type := TypeName ''string'',
                     maxLength := Some 2000\<rparr>) None None),
          (''priority'', createEnumSchema PRIORITIES),
          (''createdAt'', Schema (noKeywords\<lparr>type := TypeName ''string'',
                     format := Some ''date-time''\<rparr>) None None),
          (''updatedAt'', Schema (noKeywords\<lparr>type := TypeName ''string'',
                     format := Some ''date-time''\<rparr>) None None)])
       None"

text \<open>
  An entity schema spreads the base schema and replaces \<^verbatim>\<open>properties\<close> (the base's, then
  its own) and \<^verbatim>\<open>required\<close> (the base's, then its own). No property of the base is
  named again by an entity schema, so appending the two lists gives the spread object.
\<close>

definition FEATURE_SCHEMA :: schema where
  "FEATURE_SCHEMA =
     Schema
       ((kw BASE_ITEM_SCHEMA)\<lparr>required :=
          Some (the (required (kw BASE_ITEM_SCHEMA)) @ [''type'', ''acceptanceCriteria''])\<rparr>)
       (Some (the (properties BASE_ITEM_SCHEMA) @
         [(''type'', Schema (noKeywords\<lparr>const := Some (JStr ''feature'')\<rparr>) None None),
          (''status'', createEnumSchema FEATURE_STATUSES),
          (''epic'', Schema (noKeywords\<lparr>type := TypeNames [''string'', ''null''],
                     minLength := Some 1\<rparr>) None None),
          (''acceptanceCriteria'',
             Schema (noKeywords\<lparr>type := TypeName ''array'', minItems := Some 1\<rparr>) None
               (Some (Schema (noKeywords\<lparr>type := TypeName ''string'',
                        minLength := Some 1\<rparr>) None None)))]))
       (items BASE_ITEM_SCHEMA)"

definition BUG_SCHEMA :: schema where
  "BUG_SCHEMA =
     Schema
       ((kw BASE_ITEM_SCHEMA)\<lparr>required :=
          Some (the (required (kw BASE_ITEM_SCHEMA)) @
            [''type'', ''severity'', ''reproducible'', ''stepsToReproduce'', ''environment''])\<rparr>)
       (Some (the (properties BASE_ITEM_SCHEMA) @
         [(''type'', Schema (noKeywords\<lparr>const := Some (JStr ''bug'')\<rparr>) None None),
          (''status'', createEnumSchema BUG_STATUSES),
          (''severity'', createEnumSchema SEVERITIES),
          (''reproducible'', Schema (noKeywords\<lparr>type := TypeName ''boolean''\<rparr>) None None),
          (''stepsToReproduce'',
             Schema (noKeywords\<lparr>type := TypeName ''array'', minItems := Some 1\<rparr>) None
               (Some (Schema (noKeywords\<lparr>type := TypeName ''string'',
                        minLength := Some 1\<rparr>) None None))),
          (''environment'', Schema (noKeywords\<lparr>type := TypeName ''string'',
                     minLength := Some 1\<rparr>) None None),
          (''resolution'', Schema (noKeywords\<lparr>type := TypeNames [''string'', ''null''],
                     minLength := Some 1\<rparr>) None None)]))
       (items BASE_ITEM_SCHEMA)"

definition TASK_SCHEMA :: schema where
  "TASK_SCHEMA =
     Schema
       ((kw BASE_ITEM_SCHEMA)\<lparr>required :=
          Some (the (required (kw BASE_ITEM_SCHEMA)) @ [''type'', ''subtasks''])\<rparr>)
       (Some (the (properties BASE_ITEM_SCHEMA) @
         [(''type'', Schema (noKeywords\<lparr>const := Some (JStr ''task'')\<rparr>) None None),
          (''status'', createEnumSchema TASK_STATUSES),
          (''subtasks'',
             Schema (noKeywords\<lparr>type := TypeName ''array'', uniqueItems := Some True\<rparr>) None
               (Some (Schema (noKeywords\<lparr>type := TypeName ''string'',
                        pattern := Some ''^[a-zA-Z0-9_-]+$''\<rparr>) None None)))]))
       (items BASE_ITEM_SCHEMA)"

text \<open>The semantic-version pattern contains backslashes, written as character 0x5C.\<close>

definition semverPattern :: string where
  "semverPattern =
     ''^'' @ [CHR 0x5C] @ ''d+'' @ [CHR 0x5C] @ ''.'' @ [CHR 0x5C] @ ''d+'' @ [CHR 0x5C] @ ''.''
       @ [CHR 0x5C] @ ''d+(-[a-zA-Z0-9]+)?$''"

definition PROJECT_DATA_SCHEMA :: schema where
  "PROJECT_DATA_SCHEMA =
     Schema
       (noKeywords\<lparr>type := TypeName ''object'',
          required := Some [''features'', ''bugs'', ''tasks'', ''metadata''],
          additionalProperties := Some False\<rparr>)
       (Some
         [(''features'', Schema (noKeywords\<lparr>type := TypeName ''array''\<rparr>) None
                           (Some FEATURE_SCHEMA)),
          (''bugs'', Schema (noKeywords\<lparr>type := TypeName ''array''\<rparr>) None (Some BUG_SCHEMA)),
          (''tasks'', Schema (noKeywords\<lparr>type := TypeName ''array''\<rparr>) None (Some TASK_SCHEMA)),
          (''metadata'',
             Schema
               (noKeywords\<lparr>type := TypeName ''object'',
                  required := Some [''projectName'', ''version'', ''lastUpdated''],
                  additionalProperties := Some False\<rparr>)
               (Some
                 [(''projectName'', Schema (noKeywords\<lparr>type := TypeName ''string'',
                      minLength := Some 1, maxLength := Some 100\<rparr>) None None),
                  (''version'', Schema (noKeywords\<lparr>type := TypeName ''string'',
                      pattern := Some semverPattern\<rparr>) None None),
                  (''lastUpdated'', Schema (noKeywords\<lparr>type := TypeName ''string'',
                      format := Some ''date-time''\<rparr>) None None)])
               None)])
       None"

section \<open>Typed validators (\<^verbatim>\<open>validators.ts\<close>)\<close>

text \<open>A validator returns \<^verbatim>\<open>true\<close> (\<open>Inr True\<close>) or throws (\<open>Inl\<close>).\<close>

definition validateFeature :: "platform \<Rightarrow> jsval \<Rightarrow> thrown + bool" where
  "validateFeature P d =
     (let result = validate P d FEATURE_SCHEMA
      in if \<not> valid result
         then Inl (ValidationError ''Feature validation failed'' (errors result))
         else Inr True)"

definition validateBug :: "platform \<Rightarrow> jsval \<Rightarrow> thrown + bool" where
  "validateBug P d =
     (let result = validate P d BUG_SCHEMA
      in if \<not> valid result
         then Inl (ValidationError ''Bug validation failed'' (errors result))
         else Inr True)"

definition validateTask :: "platform \<Rightarrow> jsval \<Rightarrow> thrown + bool" where
  "validateTask P d =
     (let result = validate P d TASK_SCHEMA
      in if \<not> valid result
         then Inl (ValidationError ''Task validation failed'' (errors result))
         else Inr True)"

definition validateProjectData :: "platform \<Rightarrow> jsval \<Rightarrow> thrown + bool" where
  "validateProjectData P d =
     (let result = validate P d PROJECT_DATA_SCHEMA
      in if \<not> valid result
         then Inl (ValidationError ''Project data validation failed'' (errors result))
         else Inr True)"

definition validateProjectItem :: "platform \<Rightarrow> jsval \<Rightarrow> thrown + bool" where
  "validateProjectItem P d =
     (if typeof d \<noteq> ''object'' \<or> d = JNull
      then Inl (ValidationError ''Invalid project item'' [''Expected object''])
      else
        let tag = getProperty d ''type'' in
        if strictEquals tag (JStr ''feature'') then validateFeature P d
        else if strictEquals tag (JStr ''bug'') then validateBug P d
        else if strictEquals tag (JStr ''task'') then validateTask P d
        else Inl (ValidationError ''Invalid project item type''
               [''Expected 'feature', 'bug', or 'task', got '' @ [CHR 0x27] @ toStr P tag
                  @ [CHR 0x27]]))"

text \<open>
  The non-throwing variants. Their \<^verbatim>\<open>catch\<close> block is the same text in the three
  functions; it is one definition here.
\<close>

record tryResult = ValidationResult +
  data :: "jsval option"

definition catchBlock :: "thrown \<Rightarrow> tryResult" where
  "catchBlock error =
     (case error of
        ValidationError message errs \<Rightarrow> \<lparr>valid = False, errors = errs, data = None\<rparr>
      | Error message \<Rightarrow> \<lparr>valid = False, errors = [message], data = None\<rparr>
      | NonError \<Rightarrow> \<lparr>valid = False, errors = [''Unknown error''], data = None\<rparr>)"

definition tryValidateFeature :: "platform \<Rightarrow> jsval \<Rightarrow> tryResult" where
  "tryValidateFeature P d =
     (case validateFeature P d of
        Inr _ \<Rightarrow> \<lparr>valid = True, errors = [], data = Some d\<rparr>
      | Inl error \<Rightarrow> catchBlock error)"

definition tryValidateBug :: "platform \<Rightarrow> jsval \<Rightarrow> tryResult" where
  "tryValidateBug P d =
     (case validateBug P d of
        Inr _ \<Rightarrow> \<lparr>valid = True, errors = [], data = Some d\<rparr>
      | Inl error \<Rightarrow> catchBlock error)"

definition tryValidateTask :: "platform \<Rightarrow> jsval \<Rightarrow> tryResult" where
  "tryValidateTask P d =
     (case validateTask P d of
        Inr _ \<Rightarrow> \<lparr>valid = True, errors = [], data = Some d\<rparr>
      | Inl error \<Rightarrow> catchBlock error)"

section \<open>Sample items\<close>

text \<open>
  The items the repository's test suite validates (\<^verbatim>\<open>validFeature\<close>, \<^verbatim>\<open>validBug\<close>,
  \<^verbatim>\<open>validTask\<close>), used below to run the engine on concrete input. Running it needs a
  concrete \<^verbatim>\<open>RegExp\<close>: \<open>idPatternTest\<close> decides the id pattern
  \<^verbatim>\<open>^[a-zA-Z0-9_-]+$\<close> (a non-empty string of letters, digits, underscores and hyphens) and
  knows no other pattern. The theorems hold for every platform; only the concrete runs
  use this one.
\<close>

definition idPatternTest :: "string \<Rightarrow> string \<Rightarrow> bool" where
  "idPatternTest p s =
     (p = ''^[a-zA-Z0-9_-]+$'' \<and> s \<noteq> [] \<and>
      list_all (\<lambda>c. c \<in> set ''abcdefghijklmnopqrstuvwxyzABCDEFGHIJKLMNOPQRSTUVWXYZ0123456789_-'') s)"

definition validFeature :: jsval where
  "validFeature =
     JObj [(''id'', JStr ''f1''),
           (''title'', JStr ''Test Feature''),
           (''description'', JStr ''Test description''),
           (''type'', JStr ''feature''),
           (''status'', JStr ''backlog''),
           (''priority'', JStr ''medium''),
           (''tags'', JArr []),
           (''createdAt'', JStr ''2023-01-01T00:00:00Z''),
           (''updatedAt'', JStr ''2023-01-01T00:00:00Z''),
           (''acceptanceCriteria'', JArr [JStr ''Must work''])]"

definition validBug :: jsval where
  "validBug =
     JObj [(''id'', JStr ''b1''),
           (''title'', JStr ''Test Bug''),
           (''description'', JStr ''Test description''),
           (''type'', JStr ''bug''),
           (''status'', JStr ''open''),
           (''priority'', JStr ''high''),
           (''severity'', JStr ''critical''),
           (''reproducible'', JBool True),
           (''stepsToReproduce'', JArr [JStr ''Step 1'']),
           (''environment'', JStr ''Production''),
           (''tags'', JArr []),
           (''createdAt'', JStr ''2023-01-01T00:00:00Z''),
           (''updatedAt'', JStr ''2023-01-01T00:00:00Z'')]"

definition validTask :: jsval where
  "validTask =
     JObj [(''id'', JStr ''t1''),
           (''title'', JStr ''Test Task''),
           (''description'', JStr ''Test description''),
           (''type'', JStr ''task''),
           (''status'', JStr ''todo''),
           (''priority'', JStr ''low''),
           (''subtasks'', JArr []),
           (''tags'', JArr []),
           (''createdAt'', JStr ''2023-01-01T00:00:00Z''),
           (''updatedAt'', JStr ''2023-01-01T00:00:00Z'')]"

section \<open>Facts about the engine\<close>

text \<open>A result is valid exactly when its error list is empty.\<close>

lemma valid_validateSchema: "valid (validateSchema P d S) = (errors (validateSchema P d S) = [])"
  by (simp add: validateSchema.simps Let_def)

lemma typeValidation_nonempty: "typeValidation v S f = Some errs \<Longrightarrow> errs \<noteq> []"
  by (auto simp: typeValidation_def Let_def split: option.splits if_splits)

lemma valid_validateField: "valid (validateField P v S f) = (errors (validateField P v S f) = [])"
  by (subst (1 2) validateField.simps)
     (auto simp: Let_def dest: typeValidation_nonempty split: option.splits)

lemma valid_validate: "valid (validate P d S) = (errors (validate P d S) = [])"
  by (simp add: validate_def valid_validateSchema valid_validateField)

lemma validateSchema_object:
  assumes "type (kw S) = TypeName ''object''" and "typeof d = ''object''" and "d \<noteq> JNull"
  shows "errors (validateSchema P d S) =
     (case required (kw S) of
        Some req \<Rightarrow>
          concat (map (\<lambda>field.
            if \<not> hasProperty field d then [''Missing required field: '' @ field] else []) req)
      | None \<Rightarrow> [])
     @
     (case properties S of
        Some props \<Rightarrow>
          concat (map (\<lambda>(key, value).
            case map_of props key of
              Some fieldSchema \<Rightarrow> errors (validateField P value fieldSchema key)
            | None \<Rightarrow> []) (objectEntries d))
      | None \<Rightarrow> [])"
  using assms by (simp add: validateSchema.simps Let_def)

lemma ValidationResult_eqI:
  "valid r = b \<Longrightarrow> errors r = es \<Longrightarrow> (r::ValidationResult) = \<lparr>valid = b, errors = es\<rparr>"
  by (cases r) simp

lemma validate_null_object:
  assumes "type (kw S) = TypeName ''object''"
  shows "validate P JNull S = \<lparr>valid = True, errors = []\<rparr>"
  using assms by (simp add: validate_def validateSchema.simps)

lemma missing_required_reported:
  assumes "type (kw S) = TypeName ''object''" and "required (kw S) = Some req"
    and "name \<in> set req" and "typeof d = ''object''" and "d \<noteq> JNull"
    and "\<not> hasProperty name d"
  shows "''Missing required field: '' @ name \<in> set (errors (validate P d S))"
proof -
  have "''Missing required field: '' @ name \<in> set (concat (map (\<lambda>field.
            if \<not> hasProperty field d then [''Missing required field: '' @ field] else []) req))"
    using assms(3,6) by auto
  then show ?thesis
    using assms(1,2,4,5) by (simp add: validate_def validateSchema_object)
qed

lemma concat_if_Nil:
  "(concat (map (\<lambda>y. if c y then [m y] else []) xs) = []) = (\<forall>y \<in> set xs. \<not> c y)"
  by (induction xs) auto

lemma concat_single:
  "distinct xs \<Longrightarrow> x \<in> set xs \<Longrightarrow> concat (map (\<lambda>y. if y = x then [m y] else []) xs) = [m x]"
proof (induction xs)
  case Nil
  then show ?case by simp
next
  case (Cons a xs)
  show ?case
  proof (cases "a = x")
    case True
    with Cons.prems have "x \<notin> set xs" by simp
    then have "concat (map (\<lambda>y. if y = x then [m y] else []) xs) = []" by (induction xs) auto
    with True show ?thesis by simp
  next
    case False
    with Cons show ?thesis by simp
  qed
qed

lemma delete_required_field:
  assumes obj: "type (kw S) = TypeName ''object''" and req: "required (kw S) = Some req"
    and dist: "distinct req" and mem: "name \<in> set req"
    and ok: "valid (validate P (JObj es) S)"
  shows "validate P (deleteProperty name (JObj es)) S =
           \<lparr>valid = False, errors = [''Missing required field: '' @ name]\<rparr>"
proof -
  let ?es' = "filter (\<lambda>(key, value). key \<noteq> name) es"
  let ?msg = "\<lambda>field. ''Missing required field: '' @ field"
  let ?g = "\<lambda>props. \<lambda>(key, value). case map_of props key of
              Some fieldSchema \<Rightarrow> errors (validateField P value fieldSchema key)
            | None \<Rightarrow> []"
  from ok obj have none: "errors (validateSchema P (JObj es) S) = []"
    by (simp add: validate_def valid_validateSchema)
  with obj req have "concat (map (\<lambda>field.
      if \<not> hasProperty field (JObj es) then [?msg field] else []) req) = []"
    by (simp add: validateSchema_object)
  then have present: "\<forall>f \<in> set req. hasProperty f (JObj es)"
    by (simp only: concat_if_Nil) simp
  have keys: "hasProperty f (JObj ?es') = (f \<noteq> name \<and> hasProperty f (JObj es))" for f
    by force
  have flip: "(\<not> hasProperty f (JObj ?es')) = (f = name)" if "f \<in> set req" for f
    using that present keys [of f] by blast
  have swap: "map (\<lambda>field. if \<not> hasProperty field (JObj ?es') then [?msg field] else []) req
      = map (\<lambda>field. if field = name then [?msg field] else []) req"
    by (rule map_cong [OF refl]) (simp only: flip)
  have reqErrs: "concat (map (\<lambda>field.
      if \<not> hasProperty field (JObj ?es') then [?msg field] else []) req) = [?msg name]"
    by (simp only: swap) (rule concat_single [OF dist mem])
  have propErrs: "concat (map (?g props) ?es') = []" if "properties S = Some props" for props
  proof -
    from none obj that have "concat (map (?g props) es) = []"
      by (simp add: validateSchema_object)
    then show ?thesis by auto
  qed
  have "errors (validateSchema P (JObj ?es') S) = [?msg name]"
  proof (cases "properties S")
    case None
    with obj req show ?thesis
      by (simp only: validateSchema_object [OF obj] typeof.simps jsval.distinct
          not_False_eq_True option.case reqErrs append_Nil2)
  next
    case (Some props)
    with obj req show ?thesis
      by (simp only: validateSchema_object [OF obj] typeof.simps jsval.distinct
          not_False_eq_True option.case reqErrs objectEntries.simps propErrs [OF Some]
          append_Nil2)
  qed
  then show ?thesis
    using obj by (simp add: validate_def valid_validateSchema ValidationResult_eqI)
qed

lemma undeclared_field_ignored:
  assumes obj: "type (kw S) = TypeName ''object''"
    and undeclared: "\<forall>props. properties S = Some props \<longrightarrow> map_of props k = None"
    and ok: "valid (validate P (JObj (es1 @ es2)) S)"
  shows "validate P (JObj (es1 @ (k, v) # es2)) S = \<lparr>valid = True, errors = []\<rparr>"
proof -
  from ok obj have none: "errors (validateSchema P (JObj (es1 @ es2)) S) = []"
    by (simp add: validate_def valid_validateSchema)
  have reqs: "concat (map (\<lambda>field. if \<not> hasProperty field (JObj (es1 @ (k, v) # es2))
        then [''Missing required field: '' @ field] else []) req) = []"
    if "required (kw S) = Some req" for req
  proof -
    from none obj that have "concat (map (\<lambda>field. if \<not> hasProperty field (JObj (es1 @ es2))
        then [''Missing required field: '' @ field] else []) req) = []"
      by (simp add: validateSchema_object)
    then have "\<forall>f \<in> set req. hasProperty f (JObj (es1 @ es2))"
      by (simp only: concat_if_Nil) simp
    then have "\<forall>f \<in> set req. \<not> \<not> hasProperty f (JObj (es1 @ (k, v) # es2))"
      by auto
    then show ?thesis by (simp only: concat_if_Nil)
  qed
  have props: "concat (map (\<lambda>(key, value). case map_of props key of
              Some fieldSchema \<Rightarrow> errors (validateField P value fieldSchema key)
            | None \<Rightarrow> []) (es1 @ (k, v) # es2)) = []"
    if "properties S = Some props" for props
  proof -
    from none obj that have "concat (map (\<lambda>(key, value). case map_of props key of
              Some fieldSchema \<Rightarrow> errors (validateField P value fieldSchema key)
            | None \<Rightarrow> []) (es1 @ es2)) = []"
      by (simp add: validateSchema_object)
    moreover from undeclared that have "map_of props k = None" by simp
    ultimately show ?thesis by simp
  qed
  have "errors (validateSchema P (JObj (es1 @ (k, v) # es2)) S) = []"
    using obj reqs props by (simp add: validateSchema_object split: option.splits)
  then show ?thesis
    using obj by (simp add: validate_def valid_validateSchema ValidationResult_eqI)
qed

section \<open>Story points\<close>

text \<open>
  C1 (as amended). \<^verbatim>\<open>createStoryPoints(n)\<close> checks the range only: for a finite \<open>n\<close> it
  returns \<open>n\<close> itself when \<open>1 \<le> n \<le> 21\<close> and raises
  \<^verbatim>\<open>Story points must be between 1 and 21\<close> otherwise; it raises for both infinities.
  Nothing checks that \<open>n\<close> is an integer.
\<close>

theorem createStoryPoints_range:
  "createStoryPoints (Finite r) =
     (if 1 \<le> r \<and> r \<le> 21 then Inr (Finite r)
      else Inl (Error ''Story points must be between 1 and 21''))
   \<and> createStoryPoints PosInfinity = Inl (Error ''Story points must be between 1 and 21'')
   \<and> createStoryPoints NegInfinity = Inl (Error ''Story points must be between 1 and 21'')"
  by (auto simp: createStoryPoints_def)

text \<open>
  C1 as stated fails: the claim has \<^verbatim>\<open>createStoryPoints\<close> validate that its argument is an
  integer, yet it accepts 1.5, which is not one, and returns it.
\<close>

theorem createStoryPoints_accepts_fraction:
  "createStoryPoints (Finite (3 / 2)) = Inr (Finite (3 / 2)) \<and> (3 / 2 :: rat) \<notin> \<int>"
proof -
  have "(3 / 2 :: rat) \<notin> \<int>"
  proof
    assume "(3 / 2 :: rat) \<in> \<int>"
    then obtain z :: int where "(3 / 2 :: rat) = of_int z" by (auto elim: Ints_cases)
    then have "(3 :: rat) = of_int (2 * z)" by simp
    then have "(3 :: int) = 2 * z" by (metis of_int_eq_iff of_int_numeral)
    then show False by presburger
  qed
  then show ?thesis by (simp add: createStoryPoints_def)
qed

text \<open>NaN compares false with both bounds, so it passes the range check as well.\<close>

lemma createStoryPoints_NaN: "createStoryPoints NaN = Inr NaN"
  by (simp add: createStoryPoints_def)

section \<open>Status transitions\<close>

text \<open>
  C5. Each table has exactly the statuses of its kind as keys, and for each status
  \<^verbatim>\<open>canTransition<Kind>Status(from, to)\<close> returns whether \<open>to\<close> is in the entry the
  specification lists for \<open>from\<close>.
\<close>

theorem canTransition_tables:
  "map fst FEATURE_STATUS_TRANSITIONS = FEATURE_STATUSES
 \<and> map fst BUG_STATUS_TRANSITIONS = BUG_STATUSES
 \<and> map fst TASK_STATUS_TRANSITIONS = TASK_STATUSES
 \<and> canTransitionFeatureStatus ''backlog'' to = Some (to \<in> {''planning''})
 \<and> canTransitionFeatureStatus ''planning'' to = Some (to \<in> {''in-progress'', ''backlog''})
 \<and> canTransitionFeatureStatus ''in-progress'' to = Some (to \<in> {''testing'', ''planning''})
 \<and> canTransitionFeatureStatus ''testing'' to = Some (to \<in> {''completed'', ''in-progress''})
 \<and> canTransitionFeatureStatus ''completed'' to = Some (to \<in> {})
 \<and> canTransitionBugStatus ''open'' to = Some (to \<in> {''in-progress'', ''wont-fix''})
 \<and> canTransitionBugStatus ''in-progress'' to = Some (to \<in> {''resolved'', ''open''})
 \<and> canTransitionBugStatus ''resolved'' to = Some (to \<in> {''closed'', ''open''})
 \<and> canTransitionBugStatus ''closed'' to = Some (to \<in> {''open''})
 \<and> canTransitionBugStatus ''wont-fix'' to = Some (to \<in> {''open''})
 \<and> canTransitionTaskStatus ''todo'' to = Some (to \<in> {''in-progress''})
 \<and> canTransitionTaskStatus ''in-progress'' to = Some (to \<in> {''blocked'', ''completed'', ''todo''})
 \<and> canTransitionTaskStatus ''blocked'' to = Some (to \<in> {''in-progress'', ''todo''})
 \<and> canTransitionTaskStatus ''completed'' to = Some (to \<in> {})"
  by (simp add: canTransitionFeatureStatus_def canTransitionBugStatus_def
      canTransitionTaskStatus_def FEATURE_STATUS_TRANSITIONS_def BUG_STATUS_TRANSITIONS_def
      TASK_STATUS_TRANSITIONS_def FEATURE_STATUSES_def BUG_STATUSES_def TASK_STATUSES_def)

text \<open>
  C10. No status may move to itself: for every status \<open>s\<close> of a kind, the kind's check
  on \<open>(s, s)\<close> returns false.
\<close>

theorem transitions_irreflexive:
  "(\<forall>s \<in> set FEATURE_STATUSES. canTransitionFeatureStatus s s = Some False)
 \<and> (\<forall>s \<in> set BUG_STATUSES. canTransitionBugStatus s s = Some False)
 \<and> (\<forall>s \<in> set TASK_STATUSES. canTransitionTaskStatus s s = Some False)"
  by (simp add: canTransitionFeatureStatus_def canTransitionBugStatus_def
      canTransitionTaskStatus_def FEATURE_STATUS_TRANSITIONS_def BUG_STATUS_TRANSITIONS_def
      TASK_STATUS_TRANSITIONS_def FEATURE_STATUSES_def BUG_STATUSES_def TASK_STATUSES_def)

theorem transitions_irreflexive_witness:
  "''testing'' \<in> set FEATURE_STATUSES
 \<and> canTransitionFeatureStatus ''testing'' ''testing'' = Some False
 \<and> ''wont-fix'' \<in> set BUG_STATUSES
 \<and> canTransitionBugStatus ''wont-fix'' ''wont-fix'' = Some False
 \<and> ''blocked'' \<in> set TASK_STATUSES
 \<and> canTransitionTaskStatus ''blocked'' ''blocked'' = Some False"
proof -
  have f: "''testing'' \<in> set FEATURE_STATUSES" by (simp add: FEATURE_STATUSES_def)
  have b: "''wont-fix'' \<in> set BUG_STATUSES" by (simp add: BUG_STATUSES_def)
  have t: "''blocked'' \<in> set TASK_STATUSES" by (simp add: TASK_STATUSES_def)
  from f b t transitions_irreflexive show ?thesis by blast
qed

section \<open>Claims about the engine\<close>

text \<open>
  Unfolding sets: the schema literals, and the engine's definitions for running it on
  concrete input.
\<close>

lemmas schema_defs = TASK_SCHEMA_def FEATURE_SCHEMA_def BUG_SCHEMA_def PROJECT_DATA_SCHEMA_def
  BASE_ITEM_SCHEMA_def noKeywords_def createEnumSchema_def
  PRIORITIES_def TASK_STATUSES_def FEATURE_STATUSES_def BUG_STATUSES_def SEVERITIES_def

lemmas engine_defs = validate_def validateSchema.simps validateField.simps typeValidation_def
  stringValidations_def numberValidations_def enumValidation_def constValidation_def
  arrayValidations_def arrayIncludes_def idPatternTest_def

text \<open>
  C2. \<^verbatim>\<open>typeof null\<close> is \<^verbatim>\<open>'object'\<close>, so for every schema whose \<^verbatim>\<open>type\<close> is
  \<^verbatim>\<open>'object'\<close>, \<^verbatim>\<open>validate(null, S)\<close> returns \<^verbatim>\<open>{valid: true, errors: []}\<close>: the branch
  for records is not taken and the type-mismatch branch does not fire. Hence
  \<^verbatim>\<open>validateFeature(null)\<close>, \<^verbatim>\<open>validateBug(null)\<close>, \<^verbatim>\<open>validateTask(null)\<close> and
  \<^verbatim>\<open>validateProjectData(null)\<close> return \<^verbatim>\<open>true\<close> without raising.
\<close>

theorem validate_null_accepted:
  "typeof JNull = ''object''
 \<and> (type (kw S) = TypeName ''object'' \<longrightarrow> validate P JNull S = \<lparr>valid = True, errors = []\<rparr>)
 \<and> validateFeature P JNull = Inr True
 \<and> validateBug P JNull = Inr True
 \<and> validateTask P JNull = Inr True
 \<and> validateProjectData P JNull = Inr True"
proof -
  have "type (kw FEATURE_SCHEMA) = TypeName ''object''"
    and "type (kw BUG_SCHEMA) = TypeName ''object''"
    and "type (kw TASK_SCHEMA) = TypeName ''object''"
    and "type (kw PROJECT_DATA_SCHEMA) = TypeName ''object''"
    by (simp_all add: schema_defs)
  then show ?thesis
    by (simp add: validateFeature_def validateBug_def validateTask_def validateProjectData_def
        validate_null_object)
qed

theorem validate_null_accepted_witness:
  "\<forall>P. type (kw PROJECT_DATA_SCHEMA) = TypeName ''object''
     \<and> validate P JNull PROJECT_DATA_SCHEMA = \<lparr>valid = True, errors = []\<rparr>"
proof
  fix P
  have t: "type (kw PROJECT_DATA_SCHEMA) = TypeName ''object''"
    by (simp add: PROJECT_DATA_SCHEMA_def noKeywords_def)
  with validate_null_accepted [of PROJECT_DATA_SCHEMA P]
  show "type (kw PROJECT_DATA_SCHEMA) = TypeName ''object''
     \<and> validate P JNull PROJECT_DATA_SCHEMA = \<lparr>valid = True, errors = []\<rparr>"
    by blast
qed

text \<open>
  String checks. When the schema's \<^verbatim>\<open>type\<close> is the single name \<^verbatim>\<open>'string'\<close>, the errors
  for a string value are the minLength, maxLength and pattern messages, each present
  exactly when its constraint is violated, followed by the enum and const messages:
  violations accumulate. When \<^verbatim>\<open>type\<close> is a list of names, the string block is skipped,
  because it tests \<^verbatim>\<open>schema.type === 'string'\<close>.
\<close>

lemma stringValidations_type_list:
  "type (kw S) = TypeNames ts \<Longrightarrow> stringValidations P v S f = []"
  by (simp add: stringValidations_def split: jsval.splits)

lemma validateField_string:
  assumes "type (kw S) = TypeName ''string''"
  shows "errors (validateField P (JStr s) S f) =
     (case minLength (kw S) of
        Some n \<Rightarrow> if length s < n then [f @ '': Minimum length is '' @ showNat n] else []
      | None \<Rightarrow> [])
     @ (case maxLength (kw S) of
        Some n \<Rightarrow> if length s > n then [f @ '': Maximum length is '' @ showNat n] else []
      | None \<Rightarrow> [])
     @ (case pattern (kw S) of
        Some p \<Rightarrow> if \<not> regExpTest P p s then [f @ '': Does not match pattern '' @ p] else []
      | None \<Rightarrow> [])
     @ enumValidation P (JStr s) S f
     @ constValidation P (JStr s) S f"
  using assms
  by (simp add: validateField.simps typeValidation_def stringValidations_def
      numberValidations_def Let_def)

lemma string_violations_accumulate:
  "validateField \<lparr>regExpTest = idPatternTest, numberToString = nts\<rparr> (JStr [])
     (Schema (noKeywords\<lparr>type := TypeName ''string'', minLength := Some 1,
        pattern := Some ''^[a-zA-Z0-9_-]+$''\<rparr>) None None) ''id''
   = \<lparr>valid = False,
      errors = [''id: Minimum length is 1'', ''id: Does not match pattern ^[a-zA-Z0-9_-]+$'']\<rparr>"
  by (simp add: engine_defs noKeywords_def showNat.simps)

text \<open>
  C3 (the code departs from it). The claim includes schemas whose type is
  \<^verbatim>\<open>['string', 'null']\<close>, such as \<^verbatim>\<open>epic\<close>, which declares \<^verbatim>\<open>minLength: 1\<close>. The engine
  produces no message for the empty string there: the field validates, and so does the
  test suite's valid feature with \<^verbatim>\<open>epic: ''\<close> added.
\<close>

theorem nullable_string_constraints_skipped:
  "map_of (the (properties FEATURE_SCHEMA)) ''epic''
     = Some (Schema (noKeywords\<lparr>type := TypeNames [''string'', ''null''], minLength := Some 1\<rparr>)
         None None)
 \<and> validateField P (JStr [])
       (Schema (noKeywords\<lparr>type := TypeNames [''string'', ''null''], minLength := Some 1\<rparr>)
         None None) ''epic''
     = \<lparr>valid = True, errors = []\<rparr>
 \<and> validate \<lparr>regExpTest = idPatternTest, numberToString = nts\<rparr>
       (JObj (objectEntries validFeature @ [(''epic'', JStr [])])) FEATURE_SCHEMA
     = \<lparr>valid = True, errors = []\<rparr>"
proof -
  have a: "map_of (the (properties FEATURE_SCHEMA)) ''epic''
     = Some (Schema (noKeywords\<lparr>type := TypeNames [''string'', ''null''], minLength := Some 1\<rparr>)
         None None)"
    by (simp add: schema_defs)
  have b: "validateField P (JStr [])
       (Schema (noKeywords\<lparr>type := TypeNames [''string'', ''null''], minLength := Some 1\<rparr>)
         None None) ''epic''
     = \<lparr>valid = True, errors = []\<rparr>"
    by (simp add: engine_defs noKeywords_def)
  have c: "validate \<lparr>regExpTest = idPatternTest, numberToString = nts\<rparr>
       (JObj (objectEntries validFeature @ [(''epic'', JStr [])])) FEATURE_SCHEMA
     = \<lparr>valid = True, errors = []\<rparr>"
    by (simp add: validFeature_def schema_defs engine_defs)
  from a b c show ?thesis by blast
qed

text \<open>
  C4. For a schema of type \<^verbatim>\<open>'object'\<close>, a field \<open>k\<close> that the property map does not
  name, and a record that validates as valid: the record with \<open>k\<close> added (anywhere in
  its insertion order, with any value) validates as valid too, with the same result.
  The entity schemas declare \<^verbatim>\<open>additionalProperties: false\<close> all the same.
\<close>

theorem undeclared_fields_ignored:
  assumes "type (kw S) = TypeName ''object''"
    and "\<forall>props. properties S = Some props \<longrightarrow> map_of props k = None"
    and "valid (validate P (JObj (es1 @ es2)) S)"
  shows "validate P (JObj (es1 @ (k, v) # es2)) S = \<lparr>valid = True, errors = []\<rparr>
       \<and> validate P (JObj (es1 @ (k, v) # es2)) S = validate P (JObj (es1 @ es2)) S
       \<and> additionalProperties (kw FEATURE_SCHEMA) = Some False
       \<and> additionalProperties (kw BUG_SCHEMA) = Some False
       \<and> additionalProperties (kw TASK_SCHEMA) = Some False"
proof -
  have new: "validate P (JObj (es1 @ (k, v) # es2)) S = \<lparr>valid = True, errors = []\<rparr>"
    using assms by (rule undeclared_field_ignored)
  from assms(3) have "errors (validate P (JObj (es1 @ es2)) S) = []"
    by (simp add: valid_validate)
  with assms(3) have old: "validate P (JObj (es1 @ es2)) S = \<lparr>valid = True, errors = []\<rparr>"
    by (simp add: ValidationResult_eqI)
  have "additionalProperties (kw FEATURE_SCHEMA) = Some False"
    and "additionalProperties (kw BUG_SCHEMA) = Some False"
    and "additionalProperties (kw TASK_SCHEMA) = Some False"
    by (simp_all add: schema_defs)
  with new old show ?thesis by simp
qed

theorem undeclared_fields_ignored_witness:
  "\<forall>nts. type (kw TASK_SCHEMA) = TypeName ''object''
     \<and> map_of (the (properties TASK_SCHEMA)) ''estimate'' = None
     \<and> valid (validate \<lparr>regExpTest = idPatternTest, numberToString = nts\<rparr>
          (JObj (objectEntries validTask @ [])) TASK_SCHEMA)
     \<and> validate \<lparr>regExpTest = idPatternTest, numberToString = nts\<rparr>
          (JObj (objectEntries validTask @ [(''estimate'', JNum (Finite 3))])) TASK_SCHEMA
        = \<lparr>valid = True, errors = []\<rparr>"
proof
  fix nts
  let ?P = "\<lparr>regExpTest = idPatternTest, numberToString = nts\<rparr>"
  have t: "type (kw TASK_SCHEMA) = TypeName ''object''"
    by (simp add: schema_defs)
  have p: "map_of (the (properties TASK_SCHEMA)) ''estimate'' = None"
    by (simp add: schema_defs)
  have p': "\<forall>props. properties TASK_SCHEMA = Some props \<longrightarrow> map_of props ''estimate'' = None"
    using p by (simp add: schema_defs)
  have ok: "valid (validate ?P (JObj (objectEntries validTask @ [])) TASK_SCHEMA)"
    by (simp add: validTask_def schema_defs engine_defs)
  from undeclared_fields_ignored [OF t p' ok, of "JNum (Finite 3)"] t p ok
  show "type (kw TASK_SCHEMA) = TypeName ''object''
     \<and> map_of (the (properties TASK_SCHEMA)) ''estimate'' = None
     \<and> valid (validate ?P (JObj (objectEntries validTask @ [])) TASK_SCHEMA)
     \<and> validate ?P (JObj (objectEntries validTask @ [(''estimate'', JNum (Finite 3))])) TASK_SCHEMA
        = \<lparr>valid = True, errors = []\<rparr>"
    by blast
qed

text \<open>
  The entity schemas are of type \<^verbatim>\<open>'object'\<close>, and their required lists have no
  repeated name.
\<close>

lemma entity_schema_facts:
  assumes "S \<in> {FEATURE_SCHEMA, BUG_SCHEMA, TASK_SCHEMA}"
  shows "type (kw S) = TypeName ''object''"
    and "required (kw S) = Some (the (required (kw S)))"
    and "distinct (the (required (kw S)))"
  using assms by (auto simp: schema_defs)

text \<open>
  C9. For an entity schema (feature, bug, task) and a name in its required list: every
  non-null object that lacks the name gets the error \<^verbatim>\<open>Missing required field: <name>\<close>;
  and deleting the name from a record that validates as valid makes validation fail with
  that error and no other.
\<close>

theorem missing_required_field_reported:
  assumes "S \<in> {FEATURE_SCHEMA, BUG_SCHEMA, TASK_SCHEMA}"
    and "name \<in> set (the (required (kw S)))"
  shows "(typeof d = ''object'' \<and> d \<noteq> JNull \<and> \<not> hasProperty name d \<longrightarrow>
            ''Missing required field: '' @ name \<in> set (errors (validate P d S)))
       \<and> (valid (validate P (JObj es) S) \<longrightarrow>
            validate P (deleteProperty name (JObj es)) S
              = \<lparr>valid = False, errors = [''Missing required field: '' @ name]\<rparr>)"
proof -
  note facts = entity_schema_facts [OF assms(1)]
  have a: "''Missing required field: '' @ name \<in> set (errors (validate P d S))"
    if "typeof d = ''object''" and "d \<noteq> JNull" and "\<not> hasProperty name d"
    using missing_required_reported [OF facts(1) facts(2) assms(2) that] .
  have b: "validate P (deleteProperty name (JObj es)) S
              = \<lparr>valid = False, errors = [''Missing required field: '' @ name]\<rparr>"
    if "valid (validate P (JObj es) S)"
    using delete_required_field [OF facts(1) facts(2) facts(3) assms(2) that] .
  from a b show ?thesis by blast
qed

theorem missing_required_field_reported_witness:
  "\<forall>nts. TASK_SCHEMA \<in> {FEATURE_SCHEMA, BUG_SCHEMA, TASK_SCHEMA}
     \<and> ''subtasks'' \<in> set (the (required (kw TASK_SCHEMA)))
     \<and> typeof (JObj [(''id'', JStr ''t1'')]) = ''object''
     \<and> JObj [(''id'', JStr ''t1'')] \<noteq> JNull
     \<and> \<not> hasProperty ''subtasks'' (JObj [(''id'', JStr ''t1'')])
     \<and> ''Missing required field: subtasks''
         \<in> set (errors (validate \<lparr>regExpTest = idPatternTest, numberToString = nts\<rparr>
                  (JObj [(''id'', JStr ''t1'')]) TASK_SCHEMA))
     \<and> valid (validate \<lparr>regExpTest = idPatternTest, numberToString = nts\<rparr>
                  (JObj (objectEntries validTask)) TASK_SCHEMA)
     \<and> validate \<lparr>regExpTest = idPatternTest, numberToString = nts\<rparr>
          (deleteProperty ''subtasks'' (JObj (objectEntries validTask))) TASK_SCHEMA
        = \<lparr>valid = False, errors = [''Missing required field: subtasks'']\<rparr>"
proof
  fix nts
  let ?P = "\<lparr>regExpTest = idPatternTest, numberToString = nts\<rparr>"
  let ?d = "JObj [(''id'', JStr ''t1'')]"
  have s: "TASK_SCHEMA \<in> {FEATURE_SCHEMA, BUG_SCHEMA, TASK_SCHEMA}" by simp
  have n: "''subtasks'' \<in> set (the (required (kw TASK_SCHEMA)))"
    by (simp add: schema_defs)
  have d: "typeof ?d = ''object''" "?d \<noteq> JNull" "\<not> hasProperty ''subtasks'' ?d"
    by simp_all
  have ok: "valid (validate ?P (JObj (objectEntries validTask)) TASK_SCHEMA)"
    by (simp add: validTask_def schema_defs engine_defs)
  from missing_required_field_reported [OF s n, of ?d ?P "objectEntries validTask"] d ok
  have "''Missing required field: subtasks'' \<in> set (errors (validate ?P ?d TASK_SCHEMA))"
    and "validate ?P (deleteProperty ''subtasks'' (JObj (objectEntries validTask))) TASK_SCHEMA
        = \<lparr>valid = False, errors = [''Missing required field: subtasks'']\<rparr>"
    by simp_all
  with s n d ok
  show "TASK_SCHEMA \<in> {FEATURE_SCHEMA, BUG_SCHEMA, TASK_SCHEMA}
     \<and> ''subtasks'' \<in> set (the (required (kw TASK_SCHEMA)))
     \<and> typeof ?d = ''object''
     \<and> ?d \<noteq> JNull
     \<and> \<not> hasProperty ''subtasks'' ?d
     \<and> ''Missing required field: subtasks'' \<in> set (errors (validate ?P ?d TASK_SCHEMA))
     \<and> valid (validate ?P (JObj (objectEntries validTask)) TASK_SCHEMA)
     \<and> validate ?P (deleteProperty ''subtasks'' (JObj (objectEntries validTask))) TASK_SCHEMA
        = \<lparr>valid = False, errors = [''Missing required field: subtasks'']\<rparr>"
    by blast
qed

section \<open>Claims about the typed validators\<close>

text \<open>
  C6. \<^verbatim>\<open>validateProjectItem\<close> raises a \<^verbatim>\<open>ValidationError\<close> whose error list is
  \<^verbatim>\<open>['Expected object']\<close> when the input is not a non-null object (its \<^verbatim>\<open>typeof\<close> is not
  \<^verbatim>\<open>'object'\<close>, or it is \<^verbatim>\<open>null\<close>). Otherwise it is \<^verbatim>\<open>validateFeature\<close>,
  \<^verbatim>\<open>validateBug\<close> or \<^verbatim>\<open>validateTask\<close> on the same input when the \<^verbatim>\<open>type\<close> tag is
  \<^verbatim>\<open>'feature'\<close>, \<^verbatim>\<open>'bug'\<close> or \<^verbatim>\<open>'task'\<close>, and for any other tag, an absent one included,
  it raises a \<^verbatim>\<open>ValidationError\<close> whose one error names the tag between quotes.
\<close>

theorem validateProjectItem_dispatch:
  "(typeof d \<noteq> ''object'' \<or> d = JNull \<longrightarrow>
      validateProjectItem P d = Inl (ValidationError ''Invalid project item'' [''Expected object'']))
 \<and> (typeof d = ''object'' \<and> d \<noteq> JNull \<longrightarrow>
      (getProperty d ''type'' = JStr ''feature'' \<longrightarrow> validateProjectItem P d = validateFeature P d)
    \<and> (getProperty d ''type'' = JStr ''bug'' \<longrightarrow> validateProjectItem P d = validateBug P d)
    \<and> (getProperty d ''type'' = JStr ''task'' \<longrightarrow> validateProjectItem P d = validateTask P d)
    \<and> (getProperty d ''type'' \<notin> {JStr ''feature'', JStr ''bug'', JStr ''task''} \<longrightarrow>
         validateProjectItem P d =
           Inl (ValidationError ''Invalid project item type''
             [''Expected 'feature', 'bug', or 'task', got '' @ [CHR 0x27]
                @ toStr P (getProperty d ''type'') @ [CHR 0x27]])))"
proof -
  have eq: "strictEquals t (JStr s) = (t = JStr s)" for t s
    by (cases t) auto
  show ?thesis
    by (auto simp: validateProjectItem_def Let_def eq simp del: getProperty.simps)
qed

theorem validateProjectItem_dispatch_witness:
  "\<forall>nts.
     validateProjectItem \<lparr>regExpTest = idPatternTest, numberToString = nts\<rparr> (JStr ''not an object'')
       = Inl (ValidationError ''Invalid project item'' [''Expected object''])
   \<and> validateProjectItem \<lparr>regExpTest = idPatternTest, numberToString = nts\<rparr> validFeature = Inr True
   \<and> validateProjectItem \<lparr>regExpTest = idPatternTest, numberToString = nts\<rparr> validBug = Inr True
   \<and> validateProjectItem \<lparr>regExpTest = idPatternTest, numberToString = nts\<rparr> validTask = Inr True
   \<and> validateProjectItem \<lparr>regExpTest = idPatternTest, numberToString = nts\<rparr>
        (JObj [(''type'', JStr ''feature''), (''acceptanceCriteria'', JArr [])])
       = Inl (ValidationError ''Feature validation failed''
           [''Missing required field: id'', ''Missing required field: title'',
            ''Missing required field: description'', ''Missing required field: status'',
            ''Missing required field: priority'', ''Missing required field: createdAt'',
            ''Missing required field: updatedAt'',
            ''acceptanceCriteria: Minimum items is 1''])
   \<and> validateProjectItem \<lparr>regExpTest = idPatternTest, numberToString = nts\<rparr>
        (JObj [(''type'', JStr ''unknown'')])
       = Inl (ValidationError ''Invalid project item type''
           [''Expected 'feature', 'bug', or 'task', got 'unknown'' @ [CHR 0x27]])"
proof
  fix nts
  let ?P = "\<lparr>regExpTest = idPatternTest, numberToString = nts\<rparr>"
  let ?bad = "JObj [(''type'', JStr ''feature''), (''acceptanceCriteria'', JArr [])]"
  have f: "validateFeature ?P validFeature = Inr True"
    by (simp add: validateFeature_def validFeature_def schema_defs engine_defs)
  have b: "validateBug ?P validBug = Inr True"
    by (simp add: validateBug_def validBug_def schema_defs engine_defs)
  have t: "validateTask ?P validTask = Inr True"
    by (simp add: validateTask_def validTask_def schema_defs engine_defs)
  have e: "validateFeature ?P ?bad
       = Inl (ValidationError ''Feature validation failed''
           [''Missing required field: id'', ''Missing required field: title'',
            ''Missing required field: description'', ''Missing required field: status'',
            ''Missing required field: priority'', ''Missing required field: createdAt'',
            ''Missing required field: updatedAt'',
            ''acceptanceCriteria: Minimum items is 1''])"
    by (simp add: validateFeature_def schema_defs engine_defs showNat.simps)
  have tags: "getProperty validFeature ''type'' = JStr ''feature''"
    "getProperty validBug ''type'' = JStr ''bug''"
    "getProperty validTask ''type'' = JStr ''task''"
    "getProperty ?bad ''type'' = JStr ''feature''"
    "getProperty (JObj [(''type'', JStr ''unknown'')]) ''type'' = JStr ''unknown''"
    by (simp_all add: validFeature_def validBug_def validTask_def)
  have objs: "typeof validFeature = ''object''" "validFeature \<noteq> JNull"
    "typeof validBug = ''object''" "validBug \<noteq> JNull"
    "typeof validTask = ''object''" "validTask \<noteq> JNull"
    by (simp_all add: validFeature_def validBug_def validTask_def)
  show "validateProjectItem ?P (JStr ''not an object'')
       = Inl (ValidationError ''Invalid project item'' [''Expected object''])
   \<and> validateProjectItem ?P validFeature = Inr True
   \<and> validateProjectItem ?P validBug = Inr True
   \<and> validateProjectItem ?P validTask = Inr True
   \<and> validateProjectItem ?P ?bad
       = Inl (ValidationError ''Feature validation failed''
           [''Missing required field: id'', ''Missing required field: title'',
            ''Missing required field: description'', ''Missing required field: status'',
            ''Missing required field: priority'', ''Missing required field: createdAt'',
            ''Missing required field: updatedAt'',
            ''acceptanceCriteria: Minimum items is 1''])
   \<and> validateProjectItem ?P (JObj [(''type'', JStr ''unknown'')])
       = Inl (ValidationError ''Invalid project item type''
           [''Expected 'feature', 'bug', or 'task', got 'unknown'' @ [CHR 0x27]])"
    using validateProjectItem_dispatch [of "JStr ''not an object''" ?P]
      validateProjectItem_dispatch [of validFeature ?P]
      validateProjectItem_dispatch [of validBug ?P]
      validateProjectItem_dispatch [of validTask ?P]
      validateProjectItem_dispatch [of ?bad ?P]
      validateProjectItem_dispatch [of "JObj [(''type'', JStr ''unknown'')]" ?P]
      f b t e tags objs
    by (simp del: getProperty.simps)
qed

text \<open>
  A typed validator returns \<^verbatim>\<open>true\<close> or raises a \<^verbatim>\<open>ValidationError\<close> with a non-empty
  error list; it raises nothing else.
\<close>

lemma validators_raise_ValidationError:
  "validateFeature P d = Inr True
     \<or> (\<exists>es. es \<noteq> [] \<and> validateFeature P d = Inl (ValidationError ''Feature validation failed'' es))"
  "validateBug P d = Inr True
     \<or> (\<exists>es. es \<noteq> [] \<and> validateBug P d = Inl (ValidationError ''Bug validation failed'' es))"
  "validateTask P d = Inr True
     \<or> (\<exists>es. es \<noteq> [] \<and> validateTask P d = Inl (ValidationError ''Task validation failed'' es))"
  by (simp_all add: validateFeature_def validateBug_def validateTask_def Let_def valid_validate)

text \<open>
  C7. Each \<^verbatim>\<open>tryValidate*\<close> returns \<^verbatim>\<open>{valid: true, errors: [], data: <input>}\<close> when
  its validator succeeds; when the validator raises a \<^verbatim>\<open>ValidationError\<close> it returns
  \<^verbatim>\<open>{valid: false, errors}\<close> with the error's list and no \<^verbatim>\<open>data\<close>; whatever is raised
  goes through the catch block, which turns any other \<^verbatim>\<open>Error\<close> into the one-element
  list of its message, and a thrown value that is no \<^verbatim>\<open>Error\<close> into
  \<^verbatim>\<open>['Unknown error']\<close>.
\<close>

theorem tryValidate_results:
  "(validateFeature P d = Inr True \<longrightarrow>
      tryValidateFeature P d = \<lparr>valid = True, errors = [], data = Some d\<rparr>)
 \<and> (validateFeature P d = Inl (ValidationError m es) \<longrightarrow>
      tryValidateFeature P d = \<lparr>valid = False, errors = es, data = None\<rparr>)
 \<and> (validateBug P d = Inr True \<longrightarrow>
      tryValidateBug P d = \<lparr>valid = True, errors = [], data = Some d\<rparr>)
 \<and> (validateBug P d = Inl (ValidationError m es) \<longrightarrow>
      tryValidateBug P d = \<lparr>valid = False, errors = es, data = None\<rparr>)
 \<and> (validateTask P d = Inr True \<longrightarrow>
      tryValidateTask P d = \<lparr>valid = True, errors = [], data = Some d\<rparr>)
 \<and> (validateTask P d = Inl (ValidationError m es) \<longrightarrow>
      tryValidateTask P d = \<lparr>valid = False, errors = es, data = None\<rparr>)
 \<and> (validateFeature P d = Inl e \<longrightarrow> tryValidateFeature P d = catchBlock e)
 \<and> (validateBug P d = Inl e \<longrightarrow> tryValidateBug P d = catchBlock e)
 \<and> (validateTask P d = Inl e \<longrightarrow> tryValidateTask P d = catchBlock e)
 \<and> catchBlock (Error m) = \<lparr>valid = False, errors = [m], data = None\<rparr>
 \<and> catchBlock NonError = \<lparr>valid = False, errors = [''Unknown error''], data = None\<rparr>"
  by (simp add: tryValidateFeature_def tryValidateBug_def tryValidateTask_def catchBlock_def)

theorem tryValidate_results_witness:
  "\<forall>nts.
     tryValidateFeature \<lparr>regExpTest = idPatternTest, numberToString = nts\<rparr> validFeature
       = \<lparr>valid = True, errors = [], data = Some validFeature\<rparr>
   \<and> tryValidateBug \<lparr>regExpTest = idPatternTest, numberToString = nts\<rparr> validBug
       = \<lparr>valid = True, errors = [], data = Some validBug\<rparr>
   \<and> tryValidateTask \<lparr>regExpTest = idPatternTest, numberToString = nts\<rparr> validTask
       = \<lparr>valid = True, errors = [], data = Some validTask\<rparr>
   \<and> tryValidateFeature \<lparr>regExpTest = idPatternTest, numberToString = nts\<rparr> validTask
       = \<lparr>valid = False,
          errors = [''Missing required field: acceptanceCriteria'', ''type: Must be feature'',
            ''status: Must be one of backlog, planning, in-progress, testing, completed''],
          data = None\<rparr>
   \<and> tryValidateBug \<lparr>regExpTest = idPatternTest, numberToString = nts\<rparr> (JObj [])
       = \<lparr>valid = False,
          errors = [''Missing required field: id'', ''Missing required field: title'',
            ''Missing required field: description'', ''Missing required field: status'',
            ''Missing required field: priority'', ''Missing required field: createdAt'',
            ''Missing required field: updatedAt'', ''Missing required field: type'',
            ''Missing required field: severity'', ''Missing required field: reproducible'',
            ''Missing required field: stepsToReproduce'',
            ''Missing required field: environment''],
          data = None\<rparr>
   \<and> tryValidateTask \<lparr>regExpTest = idPatternTest, numberToString = nts\<rparr>
         (deleteProperty ''subtasks'' validTask)
       = \<lparr>valid = False, errors = [''Missing required field: subtasks''], data = None\<rparr>"
proof
  fix nts
  let ?P = "\<lparr>regExpTest = idPatternTest, numberToString = nts\<rparr>"
  have f: "validateFeature ?P validFeature = Inr True"
    by (simp add: validateFeature_def validFeature_def schema_defs engine_defs)
  have b: "validateBug ?P validBug = Inr True"
    by (simp add: validateBug_def validBug_def schema_defs engine_defs)
  have t: "validateTask ?P validTask = Inr True"
    by (simp add: validateTask_def validTask_def schema_defs engine_defs)
  have f': "validateFeature ?P validTask = Inl (ValidationError ''Feature validation failed''
      [''Missing required field: acceptanceCriteria'', ''type: Must be feature'',
       ''status: Must be one of backlog, planning, in-progress, testing, completed''])"
    by (simp add: validateFeature_def validTask_def schema_defs engine_defs arrayJoin_def)
  have b': "validateBug ?P (JObj []) = Inl (ValidationError ''Bug validation failed''
      [''Missing required field: id'', ''Missing required field: title'',
       ''Missing required field: description'', ''Missing required field: status'',
       ''Missing required field: priority'', ''Missing required field: createdAt'',
       ''Missing required field: updatedAt'', ''Missing required field: type'',
       ''Missing required field: severity'', ''Missing required field: reproducible'',
       ''Missing required field: stepsToReproduce'',
       ''Missing required field: environment''])"
    by (simp add: validateBug_def schema_defs engine_defs)
  have t': "validateTask ?P (deleteProperty ''subtasks'' validTask)
      = Inl (ValidationError ''Task validation failed'' [''Missing required field: subtasks''])"
    by (simp add: validateTask_def validTask_def schema_defs engine_defs)
  have 1: "tryValidateFeature ?P validFeature
       = \<lparr>valid = True, errors = [], data = Some validFeature\<rparr>"
    using tryValidate_results [of ?P validFeature] f by blast
  have 2: "tryValidateBug ?P validBug = \<lparr>valid = True, errors = [], data = Some validBug\<rparr>"
    using tryValidate_results [of ?P validBug] b by blast
  have 3: "tryValidateTask ?P validTask = \<lparr>valid = True, errors = [], data = Some validTask\<rparr>"
    using tryValidate_results [of ?P validTask] t by blast
  have 4: "tryValidateFeature ?P validTask
       = \<lparr>valid = False,
          errors = [''Missing required field: acceptanceCriteria'', ''type: Must be feature'',
            ''status: Must be one of backlog, planning, in-progress, testing, completed''],
          data = None\<rparr>"
    using tryValidate_results [of ?P validTask "''Feature validation failed''"] f' by blast
  have 5: "tryValidateBug ?P (JObj [])
       = \<lparr>valid = False,
          errors = [''Missing required field: id'', ''Missing required field: title'',
            ''Missing required field: description'', ''Missing required field: status'',
            ''Missing required field: priority'', ''Missing required field: createdAt'',
            ''Missing required field: updatedAt'', ''Missing required field: type'',
            ''Missing required field: severity'', ''Missing required field: reproducible'',
            ''Missing required field: stepsToReproduce'',
            ''Missing required field: environment''],
          data = None\<rparr>"
    using tryValidate_results [of ?P "JObj []" "''Bug validation failed''"] b' by blast
  have 6: "tryValidateTask ?P (deleteProperty ''subtasks'' validTask)
       = \<lparr>valid = False, errors = [''Missing required field: subtasks''], data = None\<rparr>"
    using tryValidate_results [of ?P "deleteProperty ''subtasks'' validTask"
        "''Task validation failed''"] t' by blast
  from 1 2 3 4 5 6
  show "tryValidateFeature ?P validFeature
       = \<lparr>valid = True, errors = [], data = Some validFeature\<rparr>
   \<and> tryValidateBug ?P validBug = \<lparr>valid = True, errors = [], data = Some validBug\<rparr>
   \<and> tryValidateTask ?P validTask = \<lparr>valid = True, errors = [], data = Some validTask\<rparr>
   \<and> tryValidateFeature ?P validTask
       = \<lparr>valid = False,
          errors = [''Missing required field: acceptanceCriteria'', ''type: Must be feature'',
            ''status: Must be one of backlog, planning, in-progress, testing, completed''],
          data = None\<rparr>
   \<and> tryValidateBug ?P (JObj [])
       = \<lparr>valid = False,
          errors = [''Missing required field: id'', ''Missing required field: title'',
            ''Missing required field: description'', ''Missing required field: status'',
            ''Missing required field: priority'', ''Missing required field: createdAt'',
            ''Missing required field: updatedAt'', ''Missing required field: type'',
            ''Missing required field: severity'', ''Missing required field: reproducible'',
            ''Missing required field: stepsToReproduce'',
            ''Missing required field: environment''],
          data = None\<rparr>
   \<and> tryValidateTask ?P (deleteProperty ''subtasks'' validTask)
       = \<lparr>valid = False, errors = [''Missing required field: subtasks''], data = None\<rparr>"
    by blast
qed

section \<open>Claims about the generic transition check\<close>

text \<open>
  C8. \<^verbatim>\<open>canTransitionStatus(item, newStatus)\<close> is the feature, bug or task check on the
  item's status when the item's tag is \<^verbatim>\<open>'feature'\<close>, \<^verbatim>\<open>'bug'\<close> or \<^verbatim>\<open>'task'\<close>, and
  returns false, without raising, for every other tag.
\<close>

theorem canTransitionStatus_dispatch:
  "(itemType item = ''feature'' \<longrightarrow>
      canTransitionStatus item newStatus = canTransitionFeatureStatus (status item) newStatus)
 \<and> (itemType item = ''bug'' \<longrightarrow>
      canTransitionStatus item newStatus = canTransitionBugStatus (status item) newStatus)
 \<and> (itemType item = ''task'' \<longrightarrow>
      canTransitionStatus item newStatus = canTransitionTaskStatus (status item) newStatus)
 \<and> (itemType item \<notin> {''feature'', ''bug'', ''task''} \<longrightarrow>
      canTransitionStatus item newStatus = Some False)"
  by (simp add: canTransitionStatus_def isFeature_def isBug_def isTask_def)

theorem canTransitionStatus_dispatch_witness:
  "canTransitionStatus \<lparr>itemType = ''feature'', status = ''backlog''\<rparr> ''planning'' = Some True
 \<and> canTransitionStatus \<lparr>itemType = ''bug'', status = ''open''\<rparr> ''closed'' = Some False
 \<and> canTransitionStatus \<lparr>itemType = ''task'', status = ''todo''\<rparr> ''in-progress'' = Some True
 \<and> canTransitionStatus \<lparr>itemType = ''epic'', status = ''todo''\<rparr> ''in-progress'' = Some False"
proof -
  have f: "canTransitionFeatureStatus ''backlog'' ''planning'' = Some True"
    by (simp add: canTransitionFeatureStatus_def FEATURE_STATUS_TRANSITIONS_def)
  have b: "canTransitionBugStatus ''open'' ''closed'' = Some False"
    by (simp add: canTransitionBugStatus_def BUG_STATUS_TRANSITIONS_def)
  have t: "canTransitionTaskStatus ''todo'' ''in-progress'' = Some True"
    by (simp add: canTransitionTaskStatus_def TASK_STATUS_TRANSITIONS_def)
  show ?thesis
    using canTransitionStatus_dispatch [of "\<lparr>itemType = ''feature'', status = ''backlog''\<rparr>" "''planning''"]
      canTransitionStatus_dispatch [of "\<lparr>itemType = ''bug'', status = ''open''\<rparr>" "''closed''"]
      canTransitionStatus_dispatch [of "\<lparr>itemType = ''task'', status = ''todo''\<rparr>" "''in-progress''"]
      canTransitionStatus_dispatch [of "\<lparr>itemType = ''epic'', status = ''todo''\<rparr>" "''in-progress''"]
      f b t
    by simp
qed

end
